theory Spec2Isabelle
  imports Main "HOL-Library.Word" "HOL-Library.Sublist"
    "HOL-Library.Monad_Syntax"
begin

section \<open>Connection descriptors and the CUDA backend\<close>

text \<open>
  \<^verbatim>\<open>SynapseGroup::SpanType\<close>: the axis along which the presynaptic update of a
  synapse group is parallelised.
\<close>

datatype SpanType = POSTSYNAPTIC | PRESYNAPTIC

text \<open>
  Modelled from the spec: the declarations of \<^verbatim>\<open>SynapseMatrixConnectivity\<close> and
  \<^verbatim>\<open>SynapseMatrixType\<close> are not among the sources. The spec gives a connection a
  "connectivity representation tag (dense / sparse-row / bitmask / procedural)": a matrix
  type carries exactly one of the four tags (its weight part is never consulted by the
  strategies), and \<^verbatim>\<open>sg.getMatrixType() & SynapseMatrixConnectivity::X\<close> tests for tag X.
\<close>

datatype SynapseMatrixConnectivity = DENSE | BITMASK | SPARSE | PROCEDURAL

definition matrixTypeHas :: "SynapseMatrixConnectivity \<Rightarrow> SynapseMatrixConnectivity \<Rightarrow> bool" where
  "matrixTypeHas matrixType c = (matrixType = c)"

text \<open>
  The part of \<^verbatim>\<open>SynapseGroupInternal\<close> that decides the properties below, one field per
  getter: \<^verbatim>\<open>getSpanType()\<close>, \<^verbatim>\<open>getMatrixType()\<close>, \<^verbatim>\<open>isDendriticDelayRequired()\<close>,
  \<^verbatim>\<open>getNumThreadsPerSpike()\<close>, \<^verbatim>\<open>getTrgNeuronGroup()->getNumNeurons()\<close>,
  \<^verbatim>\<open>getPSModelTargetName()\<close>, \<^verbatim>\<open>getDendriticDelayOffset(devPrefix, offset)\<close> (not among
  the sources: kept as a function of its two string arguments) and the row build code of
  the connectivity initialiser's snippet. The two counts are \<^verbatim>\<open>unsigned int\<close> values,
  that is, naturals below \<open>2 ^ 32\<close>.
\<close>

record SynapseGroupInternal =
  spanType :: SpanType
  matrixType :: SynapseMatrixConnectivity
  dendriticDelayRequired :: bool
  numThreadsPerSpike :: nat
  trgNumNeurons :: nat
  psModelTargetName :: string
  dendriticDelayOffset :: "string \<Rightarrow> string \<Rightarrow> string"
  rowBuildCode :: string

text \<open>
  Modelled from the spec: the kernel enumeration is not among the sources; the spec lists
  kernel entry points for neuron update, synapse update and state initialisation. Only
  \<^verbatim>\<open>KernelPresynapticUpdate\<close> is named by the strategies.
\<close>

datatype Kernel = KernelNeuronUpdate | KernelPresynapticUpdate | KernelInitialize

text \<open>
  The part of the CUDA \<^verbatim>\<open>Backend\<close> the strategies query: the compute capability major
  version of the chosen device (\<^verbatim>\<open>getChosenCUDADevice().major\<close>, a C int), the block size
  per kernel and the name of the atomic add for a floating point precision.
\<close>

record Backend =
  chosenCUDADeviceMajor :: int
  kernelBlockSize :: "Kernel \<Rightarrow> nat"
  floatAtomicAdd :: "string \<Rightarrow> string"

section \<open>The three presynaptic update strategies\<close>

text \<open>The closed set of classes deriving from the strategy base class.\<close>

datatype Strategy = PreSpan | PostSpan | PreSpanProcedural

fun isCompatible :: "Strategy \<Rightarrow> SynapseGroupInternal \<Rightarrow> bool" where
  "isCompatible PreSpan sg =
     (spanType sg = PRESYNAPTIC \<and> matrixTypeHas (matrixType sg) SPARSE)"
| "isCompatible PostSpan sg =
     (spanType sg = POSTSYNAPTIC \<and> \<not> matrixTypeHas (matrixType sg) PROCEDURAL)"
| "isCompatible PreSpanProcedural sg = matrixTypeHas (matrixType sg) PROCEDURAL"

fun shouldAccumulateInRegister :: "Strategy \<Rightarrow> SynapseGroupInternal \<Rightarrow> Backend \<Rightarrow> bool" where
  "shouldAccumulateInRegister PreSpan sg backend = False"
| "shouldAccumulateInRegister PostSpan sg backend =
     (matrixTypeHas (matrixType sg) DENSE \<or> matrixTypeHas (matrixType sg) BITMASK)"
| "shouldAccumulateInRegister PreSpanProcedural sg backend = False"

fun shouldAccumulateInSharedMemory :: "Strategy \<Rightarrow> SynapseGroupInternal \<Rightarrow> Backend \<Rightarrow> bool" where
  "shouldAccumulateInSharedMemory PreSpan sg backend =
     (if chosenCUDADeviceMajor backend < 5 then False
      else if dendriticDelayRequired sg then False
      else trgNumNeurons sg \<le> kernelBlockSize backend KernelPresynapticUpdate)"
| "shouldAccumulateInSharedMemory PostSpan sg backend =
     (if dendriticDelayRequired sg then False
      else (matrixTypeHas (matrixType sg) SPARSE
            \<and> trgNumNeurons sg \<le> kernelBlockSize backend KernelPresynapticUpdate))"
| "shouldAccumulateInSharedMemory PreSpanProcedural sg backend =
     (if chosenCUDADeviceMajor backend < 5 then False
      else if dendriticDelayRequired sg then False
      else trgNumNeurons sg \<le> kernelBlockSize backend KernelPresynapticUpdate)"

text \<open>
  The three strategies, and the ones among them that are compatible with a synapse
  group. The spec asks for exactly one compatible strategy per connection.
\<close>

definition strategies :: "Strategy list" where
  "strategies = [PreSpan, PostSpan, PreSpanProcedural]"

definition compatibleStrategies :: "SynapseGroupInternal \<Rightarrow> Strategy list" where
  "compatibleStrategies sg = filter (\<lambda>s. isCompatible s sg) strategies"

text \<open>Concrete descriptors used to evaluate the definitions.\<close>

definition exampleSynapseGroup :: SynapseGroupInternal where
  "exampleSynapseGroup =
     \<lparr>spanType = POSTSYNAPTIC, matrixType = SPARSE, dendriticDelayRequired = False,
      numThreadsPerSpike = 1, trgNumNeurons = 4, psModelTargetName = ''Syn'',
      dendriticDelayOffset = (\<lambda>devPrefix offset. ''(('' @ offset @ '') * 4) + ''),
      rowBuildCode = []\<rparr>"

definition exampleBackend :: Backend where
  "exampleBackend =
     \<lparr>chosenCUDADeviceMajor = 5, kernelBlockSize = (\<lambda>k. 32),
      floatAtomicAdd = (\<lambda>precision. ''atomicAdd'')\<rparr>"

section \<open>Population descriptors\<close>

text \<open>
  \<^verbatim>\<open>std::string::find\<close>: the position of the first occurrence of \<open>pat\<close> in \<open>s\<close>, or
  \<open>None\<close> for \<^verbatim>\<open>npos\<close>.
\<close>

fun string_find :: "string \<Rightarrow> string \<Rightarrow> nat option" where
  "string_find [] pat = (if pat = [] then Some 0 else None)"
| "string_find (c # cs) pat =
     (if prefix pat (c # cs) then Some 0 else map_option Suc (string_find cs pat))"

definition contains :: "string \<Rightarrow> string \<Rightarrow> bool" where
  "contains s pat = (string_find s pat \<noteq> None)"

text \<open>
  The neuron model of a population (\<^verbatim>\<open>getNeuronModel()\<close>): its variables as (name, type)
  pairs and its code strings. A postsynaptic model (\<^verbatim>\<open>getPSModel()\<close> of an incoming synapse
  group) is read for its two code strings.
\<close>

record NeuronModel =
  vars :: "(string \<times> string) list"
  simCode :: string
  thresholdConditionCode :: string
  resetCode :: string

record PostsynapticModel =
  applyInputCode :: string
  decayCode :: string

text \<open>
  The state of a \<^verbatim>\<open>NeuronGroup\<close> touched by the operations below. \<^verbatim>\<open>m_NumDelaySlots\<close> is
  an \<^verbatim>\<open>unsigned int\<close>; \<^verbatim>\<open>getInSyn()\<close> is the list of incoming synapse groups, each read
  for its postsynaptic model only.
\<close>

record NeuronGroup =
  neuronModel :: NeuronModel
  numDelaySlots :: "32 word"
  anyVarQueuesRequired :: bool
  varQueueRequired :: "bool list"
  inSyn :: "PostsynapticModel list"

definition checkNumDelaySlots :: "32 word \<Rightarrow> NeuronGroup \<Rightarrow> NeuronGroup" where
  "checkNumDelaySlots requiredDelay ng =
     (if requiredDelay \<ge> numDelaySlots ng
      then ng\<lparr>numDelaySlots := requiredDelay + 1\<rparr>
      else ng)"

text \<open>
  The loop of \<^verbatim>\<open>updateVarQueues\<close> from index \<open>i\<close> on, over the variables not yet visited.
  A write to \<^verbatim>\<open>m_VarQueueRequired[i]\<close> beyond the vector's size is undefined in C++ and
  is the result \<open>None\<close> here.
\<close>

fun updateVarQueues_from :: "string \<Rightarrow> (string \<times> string) list \<Rightarrow> nat \<Rightarrow> NeuronGroup
    \<Rightarrow> NeuronGroup option" where
  "updateVarQueues_from code [] i ng = Some ng"
| "updateVarQueues_from code (v # vs) i ng =
     (if string_find code (fst v @ ''_pre'') \<noteq> None
      then (if i < length (varQueueRequired ng)
            then updateVarQueues_from code vs (Suc i)
                   (ng\<lparr>anyVarQueuesRequired := True,
                       varQueueRequired := (varQueueRequired ng)[i := True]\<rparr>)
            else None)
      else updateVarQueues_from code vs (Suc i) ng)"

definition updateVarQueues :: "string \<Rightarrow> NeuronGroup \<Rightarrow> NeuronGroup option" where
  "updateVarQueues code ng = updateVarQueues_from code (vars (neuronModel ng)) 0 ng"

text \<open>
  The loop over the incoming synapse groups in \<^verbatim>\<open>isSimRNGRequired\<close>. The free function
  \<^verbatim>\<open>::isRNGRequired\<close> is not among the sources and is a parameter.
\<close>

fun inSynRNGRequired :: "(string \<Rightarrow> bool) \<Rightarrow> PostsynapticModel list \<Rightarrow> bool" where
  "inSynRNGRequired isRNGRequired [] = False"
| "inSynRNGRequired isRNGRequired (psm # rest) =
     (if isRNGRequired (applyInputCode psm) \<or> isRNGRequired (decayCode psm) then True
      else inSynRNGRequired isRNGRequired rest)"

definition isSimRNGRequired :: "(string \<Rightarrow> bool) \<Rightarrow> NeuronGroup \<Rightarrow> bool" where
  "isSimRNGRequired isRNGRequired ng =
     (if isRNGRequired (simCode (neuronModel ng))
         \<or> isRNGRequired (thresholdConditionCode (neuronModel ng))
         \<or> isRNGRequired (resetCode (neuronModel ng))
      then True
      else inSynRNGRequired isRNGRequired (inSyn ng))"

text \<open>A concrete population used to evaluate the definitions.\<close>

definition exampleNeuronGroup :: NeuronGroup where
  "exampleNeuronGroup =
     \<lparr>neuronModel = \<lparr>vars = [(''V'', ''scalar''), (''U'', ''scalar'')],
                     simCode = ''$(V) += $(Isyn) * DT;'',
                     thresholdConditionCode = ''$(V) >= 30.0'',
                     resetCode = ''$(V) = -65.0;''\<rparr>,
      numDelaySlots = 1, anyVarQueuesRequired = False, varQueueRequired = [False, False],
      inSyn = [\<lparr>applyInputCode = ''$(Isyn) += $(inSyn);'', decayCode = ''$(inSyn) = 0;''\<rparr>]\<rparr>"

section \<open>Substitution stacks\<close>

text \<open>
  Modelled from the spec: the \<^verbatim>\<open>Substitutions\<close> class is not among the sources. The spec
  describes "an ordered, chained mapping from placeholder name to either a literal
  replacement string (variable substitution) or a parameterized expansion rule taking a
  fixed arity of textual arguments (function substitution)", with a parent context.
\<close>

datatype Substitutions =
  Substitutions (varSubstitutions: "(string \<times> string) list")
                (funcSubstitutions: "(string \<times> nat \<times> string) list")
                (parent: "Substitutions option")

text \<open>
  Modelled from the spec: "Lookups walk from the innermost context outward to an
  outer/parent context; a name defined in an inner context shadows the same name in an
  outer one", and a name with no binding is an error (\<open>None\<close>).
  \<open>getVarSubstitution\<close> is \<^verbatim>\<open>operator[]\<close>.
\<close>

fun getVarSubstitution :: "Substitutions \<Rightarrow> string \<Rightarrow> string option" where
  "getVarSubstitution (Substitutions vs fs p) name =
     (case map_of vs name of
        Some v \<Rightarrow> Some v
      | None \<Rightarrow> (case p of None \<Rightarrow> None | Some outer \<Rightarrow> getVarSubstitution outer name))"

fun getFuncSubstitution :: "Substitutions \<Rightarrow> string \<Rightarrow> (nat \<times> string) option" where
  "getFuncSubstitution (Substitutions vs fs p) name =
     (case map_of fs name of
        Some f \<Rightarrow> Some f
      | None \<Rightarrow> (case p of None \<Rightarrow> None | Some outer \<Rightarrow> getFuncSubstitution outer name))"

text \<open>
  Modelled from the spec: "bind(name, replacement) adds/overwrites a variable binding in
  the current context (fails if the name collides with a function binding in the same
  context -- variable and function namespaces are disjoint per context)", and
  "bindFunction(name, arity, templateWithPositionalArgs) adds a function binding". A
  function binding whose name is a variable of the same context fails as well, which
  keeps the two namespaces disjoint. Failure is \<open>None\<close>.
\<close>

definition addVarSubstitution :: "string \<Rightarrow> string \<Rightarrow> Substitutions \<Rightarrow> Substitutions option" where
  "addVarSubstitution name v subs =
     (if name \<in> fst ` set (funcSubstitutions subs) then None
      else Some (Substitutions ((name, v) # varSubstitutions subs) (funcSubstitutions subs)
                   (parent subs)))"

definition addFuncSubstitution :: "string \<Rightarrow> nat \<Rightarrow> string \<Rightarrow> Substitutions
    \<Rightarrow> Substitutions option" where
  "addFuncSubstitution name numArguments funcTemplate subs =
     (if name \<in> fst ` set (varSubstitutions subs) then None
      else Some (Substitutions (varSubstitutions subs)
                   ((name, numArguments, funcTemplate) # funcSubstitutions subs) (parent subs)))"

text \<open>\<^verbatim>\<open>Substitutions child(&outer)\<close>: a fresh context chained to \<open>outer\<close>.\<close>

definition childSubstitutions :: "Substitutions \<Rightarrow> Substitutions" where
  "childSubstitutions outer = Substitutions [] [] (Some outer)"

section \<open>Kernel body generation\<close>

text \<open>
  The accumulation bindings every \<^verbatim>\<open>genCode\<close> adds to \<^verbatim>\<open>synSubs\<close>, in the source's branch
  order. \<open>precision\<close> is \<^verbatim>\<open>model.getPrecision()\<close>; \<open>idPost\<close> is the text each strategy
  indexes the target with (\<^verbatim>\<open>ipost\<close>, \<^verbatim>\<open>synSubs["id_post"]\<close> or \<^verbatim>\<open>$(id_post)\<close>).
\<close>

definition addToInSynDelayTemplate :: "string \<Rightarrow> SynapseGroupInternal \<Rightarrow> Backend \<Rightarrow> string
    \<Rightarrow> string" where
  "addToInSynDelayTemplate precision sg backend idPost =
     floatAtomicAdd backend precision @ ''(&dd_denDelay'' @ psModelTargetName sg @ ''[''
       @ dendriticDelayOffset sg ''dd_'' ''$(1)'' @ idPost @ ''], $(0))''"

text \<open>
  The substitution stack \<^verbatim>\<open>synSubs\<close> as each strategy's \<^verbatim>\<open>genCode\<close> hands it to
  \<^verbatim>\<open>wumSimHandler\<close>. The text written to the code stream is not part of the result;
  \<^verbatim>\<open>popSubs["id"]\<close>, which every strategy reads while writing it, must resolve.
  \<^verbatim>\<open>::Utils::isRNGRequired\<close> is not among the sources and is a parameter.
\<close>

fun genCode_synSubs :: "Strategy \<Rightarrow> (string \<Rightarrow> bool) \<Rightarrow> string \<Rightarrow> SynapseGroupInternal
    \<Rightarrow> Substitutions \<Rightarrow> Backend \<Rightarrow> bool \<Rightarrow> Substitutions option" where
  "genCode_synSubs PreSpan isRNGRequired precision sg popSubs backend trueSpike = do {
     _ \<leftarrow> getVarSubstitution popSubs ''id'';
     synSubs \<leftarrow> addVarSubstitution ''id_pre'' ''preInd'' (childSubstitutions popSubs);
     synSubs \<leftarrow> addVarSubstitution ''id_post'' ''ipost'' synSubs;
     synSubs \<leftarrow> addVarSubstitution ''id_syn'' ''synAddress'' synSubs;
     if dendriticDelayRequired sg then
       addFuncSubstitution ''addToInSynDelay'' 2
         (addToInSynDelayTemplate precision sg backend ''ipost'') synSubs
     else if shouldAccumulateInSharedMemory PreSpan sg backend then
       addFuncSubstitution ''addToInSyn'' 1
         (floatAtomicAdd backend precision @ ''(&shLg[ipost], $(0))'') synSubs
     else
       addFuncSubstitution ''addToInSyn'' 1
         (floatAtomicAdd backend precision @ ''(&dd_inSyn'' @ psModelTargetName sg
            @ ''[ipost], $(0))'') synSubs
   }"
| "genCode_synSubs PostSpan isRNGRequired precision sg popSubs backend trueSpike = do {
     popId \<leftarrow> getVarSubstitution popSubs ''id'';
     synSubs \<leftarrow> addVarSubstitution ''id_pre''
                  (''shSpk'' @ (if trueSpike then '''' else ''Evnt'') @ ''[j]'')
                  (childSubstitutions popSubs);
     synSubs \<leftarrow> (if matrixTypeHas (matrixType sg) SPARSE
                  then addVarSubstitution ''id_post'' ''ipost'' synSubs
                  else addVarSubstitution ''id_post'' popId synSubs);
     synSubs \<leftarrow> addVarSubstitution ''id_syn'' ''synAddress'' synSubs;
     idPost \<leftarrow> getVarSubstitution synSubs ''id_post'';
     if dendriticDelayRequired sg then
       addFuncSubstitution ''addToInSynDelay'' 2
         (addToInSynDelayTemplate precision sg backend idPost) synSubs
     else if matrixTypeHas (matrixType sg) SPARSE then
       (if shouldAccumulateInSharedMemory PostSpan sg backend then
          addFuncSubstitution ''addToInSyn'' 1 (''shLg['' @ idPost @ ''] += $(0)'') synSubs
        else
          addFuncSubstitution ''addToInSyn'' 1
            (floatAtomicAdd backend precision @ ''(&dd_inSyn'' @ psModelTargetName sg
               @ ''['' @ idPost @ ''], $(0))'') synSubs)
     else
       addFuncSubstitution ''addToInSyn'' 1 ''linSyn += $(0)'' synSubs
   }"
| "genCode_synSubs PreSpanProcedural isRNGRequired precision sg popSubs backend trueSpike = do {
     _ \<leftarrow> getVarSubstitution popSubs ''id'';
     procPopSubs \<leftarrow> addVarSubstitution ''id_pre'' ''preInd'' (childSubstitutions popSubs);
     procPopSubs \<leftarrow> (if isRNGRequired (rowBuildCode sg)
                      then addVarSubstitution ''rng'' ''&connectRNG'' procPopSubs
                      else Some procPopSubs);
     synSubs \<leftarrow> addVarSubstitution ''id_post'' ''$(0)'' (childSubstitutions procPopSubs);
     synSubs \<leftarrow> addVarSubstitution ''id_syn'' ''synAddress'' synSubs;
     if dendriticDelayRequired sg then
       addFuncSubstitution ''addToInSynDelay'' 2
         (addToInSynDelayTemplate precision sg backend ''$(id_post)'') synSubs
     else if shouldAccumulateInSharedMemory PreSpanProcedural sg backend then
       addFuncSubstitution ''addToInSyn'' 1
         (floatAtomicAdd backend precision @ ''(&shLg[$(id_post)], $(0))'') synSubs
     else
       addFuncSubstitution ''addToInSyn'' 1
         (floatAtomicAdd backend precision @ ''(&dd_inSyn'' @ psModelTargetName sg
            @ ''[$(id_post)], $(0))'') synSubs
   }"

text \<open>The text each strategy indexes the dendritic delay buffer with.\<close>

fun denDelayIndex :: "Strategy \<Rightarrow> SynapseGroupInternal \<Rightarrow> string \<Rightarrow> string" where
  "denDelayIndex PreSpan sg popId = ''ipost''"
| "denDelayIndex PostSpan sg popId =
     (if matrixTypeHas (matrixType sg) SPARSE then ''ipost'' else popId)"
| "denDelayIndex PreSpanProcedural sg popId = ''$(id_post)''"

text \<open>
  Modelled from the spec: \<^verbatim>\<open>Utils::ceilDivide\<close> is not among the sources; the spec's
  block size is \<open>ceil(targetCount / threadsPerSpike)\<close>.
\<close>

definition ceilDivide :: "nat \<Rightarrow> nat \<Rightarrow> nat" where
  "ceilDivide numerator denominator = (numerator + denominator - 1) div denominator"

text \<open>
  What \<^verbatim>\<open>PreSpanProcedural::genCode\<close> binds \<^verbatim>\<open>$(id_post_begin)\<close> and \<^verbatim>\<open>$(num_post)\<close> to in
  \<^verbatim>\<open>connSubs\<close>, with the C expressions it emits for the bound names:
  \<^item> \<open>IdPostBeginZero\<close> is the literal \<^verbatim>\<open>0\<close>; \<open>IdPostStart k\<close> is the name \<^verbatim>\<open>idPostStart\<close>,
    emitted as \<^verbatim>\<open>const unsigned int idPostStart = thread * k;\<close>
  \<^item> \<open>NumPostLiteral n\<close> is \<^verbatim>\<open>std::to_string(n)\<close>; \<open>NumPostClamped l r n\<close> is the name
    \<^verbatim>\<open>numPost\<close>, emitted as \<^verbatim>\<open>const unsigned int numPost = (thread == l) ? r : n;\<close>
\<close>

datatype IdPostBegin = IdPostBeginZero | IdPostStart nat

datatype NumPost = NumPostLiteral nat | NumPostClamped nat nat nat

text \<open>
  The branch of \<^verbatim>\<open>PreSpanProcedural::genCode\<close> that splits a row between the threads of a
  spike. \<^verbatim>\<open>numTrgNeurons % numPostPerThread\<close> divides by zero when the target population
  is empty; this is the result \<open>None\<close>.
\<close>

definition genCode_postRange :: "SynapseGroupInternal \<Rightarrow> (IdPostBegin \<times> NumPost) option" where
  "genCode_postRange sg =
     (let numTrgNeurons = trgNumNeurons sg in
      if numThreadsPerSpike sg > 1 then
        (let numPostPerThread = ceilDivide numTrgNeurons (numThreadsPerSpike sg) in
         if numPostPerThread = 0 then None
         else if numTrgNeurons mod numPostPerThread = 0 then
           Some (IdPostStart numPostPerThread, NumPostLiteral numPostPerThread)
         else
           Some (IdPostStart numPostPerThread,
                 NumPostClamped (numThreadsPerSpike sg - 1) (numTrgNeurons mod numPostPerThread)
                   numPostPerThread))
      else Some (IdPostBeginZero, NumPostLiteral numTrgNeurons))"

text \<open>
  The values the emitted expressions take in a kernel thread whose \<^verbatim>\<open>thread\<close> variable
  (\<^verbatim>\<open>id % numThreadsPerSpike\<close>) is \<open>thread\<close>; \<^verbatim>\<open>unsigned int\<close> multiplication wraps.
\<close>

fun evalIdPostBegin :: "IdPostBegin \<Rightarrow> nat \<Rightarrow> nat" where
  "evalIdPostBegin IdPostBeginZero thread = 0"
| "evalIdPostBegin (IdPostStart k) thread = (thread * k) mod 2 ^ 32"

fun evalNumPost :: "NumPost \<Rightarrow> nat \<Rightarrow> nat" where
  "evalNumPost (NumPostLiteral n) thread = n"
| "evalNumPost (NumPostClamped l r n) thread = (if thread = l then r else n)"

text \<open>
  The sub-row (first target index, number of targets) of each of the threads
  \<open>0 \<dots> numThreadsPerSpike - 1\<close> that share one spike.
\<close>

definition threadSubRows :: "SynapseGroupInternal \<Rightarrow> (nat \<times> nat) list option" where
  "threadSubRows sg =
     map_option
       (\<lambda>(b, n). map (\<lambda>thread. (evalIdPostBegin b thread, evalNumPost n thread))
                   [0 ..< numThreadsPerSpike sg])
       (genCode_postRange sg)"

section \<open>Strategy selection\<close>

lemma compatibleStrategies_cases:
  "compatibleStrategies sg =
     (case (spanType sg, matrixType sg) of
        (_, PROCEDURAL) \<Rightarrow> [PreSpanProcedural]
      | (PRESYNAPTIC, SPARSE) \<Rightarrow> [PreSpan]
      | (PRESYNAPTIC, _) \<Rightarrow> []
      | (POSTSYNAPTIC, _) \<Rightarrow> [PostSpan])"
  by (cases "spanType sg"; cases "matrixType sg")
     (simp_all add: compatibleStrategies_def strategies_def matrixTypeHas_def)

text \<open>
  C1, as stated: every connection descriptor has exactly one compatible strategy. It fails
  for a descriptor that asks for presynaptic span on dense connectivity: no strategy is
  compatible with it.
\<close>

theorem C1_counterexample:
  "\<not> isCompatible PreSpan (exampleSynapseGroup\<lparr>spanType := PRESYNAPTIC, matrixType := DENSE\<rparr>)
   \<and> \<not> isCompatible PostSpan (exampleSynapseGroup\<lparr>spanType := PRESYNAPTIC, matrixType := DENSE\<rparr>)
   \<and> \<not> isCompatible PreSpanProcedural (exampleSynapseGroup\<lparr>spanType := PRESYNAPTIC, matrixType := DENSE\<rparr>)"
  by (simp add: exampleSynapseGroup_def matrixTypeHas_def)

text \<open>
  C1, amended: the three compatibility predicates are mutually exclusive (at most one
  strategy is compatible with any descriptor), and exactly one strategy is compatible
  unless the descriptor asks for presynaptic span on dense or bitmask connectivity, where
  none is.
\<close>

theorem C1_at_most_one_compatible:
  "(isCompatible s sg \<and> isCompatible s' sg \<longrightarrow> s = s')
   \<and> (\<exists>s. isCompatible s sg)
       = (\<not> (spanType sg = PRESYNAPTIC \<and> (matrixType sg = DENSE \<or> matrixType sg = BITMASK)))
   \<and> length (compatibleStrategies sg) \<le> 1
   \<and> (length (compatibleStrategies sg) = 1) = (\<exists>s. isCompatible s sg)"
proof -
  have one: "isCompatible s sg \<and> isCompatible s' sg \<longrightarrow> s = s'"
    by (cases s; cases s'; cases "spanType sg") (auto simp: matrixTypeHas_def)
  have some: "(\<exists>s. isCompatible s sg)
       = (\<not> (spanType sg = PRESYNAPTIC \<and> (matrixType sg = DENSE \<or> matrixType sg = BITMASK)))"
  proof
    assume "\<exists>s. isCompatible s sg"
    then obtain s where "isCompatible s sg" ..
    then show "\<not> (spanType sg = PRESYNAPTIC
                  \<and> (matrixType sg = DENSE \<or> matrixType sg = BITMASK))"
      by (cases s) (auto simp: matrixTypeHas_def)
  next
    assume ok: "\<not> (spanType sg = PRESYNAPTIC
                   \<and> (matrixType sg = DENSE \<or> matrixType sg = BITMASK))"
    show "\<exists>s. isCompatible s sg"
    proof (cases "matrixType sg = PROCEDURAL")
      case True
      then have "isCompatible PreSpanProcedural sg" by (simp add: matrixTypeHas_def)
      then show ?thesis ..
    next
      case False
      show ?thesis
      proof (cases "spanType sg")
        case POSTSYNAPTIC
        with False have "isCompatible PostSpan sg" by (simp add: matrixTypeHas_def)
        then show ?thesis ..
      next
        case PRESYNAPTIC
        with False ok have "isCompatible PreSpan sg"
          by (cases "matrixType sg") (simp_all add: matrixTypeHas_def)
        then show ?thesis ..
      qed
    qed
  qed
  have len: "length (compatibleStrategies sg) \<le> 1
             \<and> (length (compatibleStrategies sg) = 1)
                 = (\<not> (spanType sg = PRESYNAPTIC
                        \<and> (matrixType sg = DENSE \<or> matrixType sg = BITMASK)))"
    by (cases "spanType sg"; cases "matrixType sg") (simp_all add: compatibleStrategies_cases)
  from one some len show ?thesis by simp
qed

theorem C1_at_most_one_compatible_witness:
  "isCompatible PostSpan exampleSynapseGroup
   \<and> \<not> isCompatible PreSpan exampleSynapseGroup
   \<and> \<not> isCompatible PreSpanProcedural exampleSynapseGroup
   \<and> compatibleStrategies exampleSynapseGroup = [PostSpan]"
  using C1_at_most_one_compatible [of PostSpan exampleSynapseGroup PostSpan]
  by (simp add: compatibleStrategies_cases exampleSynapseGroup_def matrixTypeHas_def)

section \<open>Accumulation policy\<close>

text \<open>
  C2: for every connection descriptor with dendritic delay required, each of the three
  strategies' \<^verbatim>\<open>shouldAccumulateInSharedMemory\<close> returns false, whatever the target
  population size, the device's compute capability and the block size.
\<close>

theorem C2_dendritic_delay_never_shared:
  "dendriticDelayRequired sg \<Longrightarrow> \<not> shouldAccumulateInSharedMemory s sg backend"
  by (cases s) simp_all

theorem C2_dendritic_delay_never_shared_witness:
  "dendriticDelayRequired (exampleSynapseGroup\<lparr>dendriticDelayRequired := True\<rparr>)
   \<and> \<not> shouldAccumulateInSharedMemory PostSpan
          (exampleSynapseGroup\<lparr>dendriticDelayRequired := True\<rparr>) exampleBackend
   \<and> shouldAccumulateInSharedMemory PostSpan exampleSynapseGroup exampleBackend"
  using C2_dendritic_delay_never_shared
    [of "exampleSynapseGroup\<lparr>dendriticDelayRequired := True\<rparr>" PostSpan exampleBackend]
  by (simp add: exampleSynapseGroup_def exampleBackend_def matrixTypeHas_def)

text \<open>
  C4, as stated: every strategy's \<^verbatim>\<open>shouldAccumulateInSharedMemory\<close> returns false on a
  device below compute capability 5. It fails for the postsynaptic span strategy, which
  does not consult the device: on a device of major version 3 it returns true for a
  sparse connection without dendritic delay whose target population (4 neurons) fits in
  a block (32 threads).
\<close>

theorem C4_counterexample:
  "chosenCUDADeviceMajor (exampleBackend\<lparr>chosenCUDADeviceMajor := 3\<rparr>) < 5
   \<and> shouldAccumulateInSharedMemory PostSpan exampleSynapseGroup
        (exampleBackend\<lparr>chosenCUDADeviceMajor := 3\<rparr>)"
  by (simp add: exampleSynapseGroup_def exampleBackend_def matrixTypeHas_def)

text \<open>
  C4, amended: the two presynaptic span strategies (PreSpan and PreSpanProcedural) return
  false whenever the device's major compute capability is below 5; the postsynaptic span
  strategy does not depend on the device at all; and for each of the three strategies a
  result of true implies that the target population's neuron count is at most the block
  size of the presynaptic update kernel.
\<close>

theorem C4_shared_memory_tier_and_size:
  "(s \<noteq> PostSpan \<and> chosenCUDADeviceMajor backend < 5
      \<longrightarrow> \<not> shouldAccumulateInSharedMemory s sg backend)
   \<and> shouldAccumulateInSharedMemory PostSpan sg (backend\<lparr>chosenCUDADeviceMajor := major\<rparr>)
       = shouldAccumulateInSharedMemory PostSpan sg backend
   \<and> (shouldAccumulateInSharedMemory s sg backend
      \<longrightarrow> trgNumNeurons sg \<le> kernelBlockSize backend KernelPresynapticUpdate)"
  by (cases s) simp_all

theorem C4_shared_memory_tier_and_size_witness:
  "PreSpan \<noteq> PostSpan
   \<and> chosenCUDADeviceMajor (exampleBackend\<lparr>chosenCUDADeviceMajor := 3\<rparr>) < 5
   \<and> \<not> shouldAccumulateInSharedMemory PreSpan exampleSynapseGroup
          (exampleBackend\<lparr>chosenCUDADeviceMajor := 3\<rparr>)
   \<and> shouldAccumulateInSharedMemory PreSpan exampleSynapseGroup exampleBackend
   \<and> trgNumNeurons exampleSynapseGroup \<le> kernelBlockSize exampleBackend KernelPresynapticUpdate"
  using C4_shared_memory_tier_and_size
    [of PreSpan "exampleBackend\<lparr>chosenCUDADeviceMajor := 3\<rparr>" exampleSynapseGroup]
    C4_shared_memory_tier_and_size [of PreSpan exampleBackend exampleSynapseGroup]
  by (simp add: exampleSynapseGroup_def exampleBackend_def)

text \<open>
  C5: for every connection descriptor whose connectivity is dense or bitmask and whose
  span type is postsynaptic, the postsynaptic span strategy's
  \<^verbatim>\<open>shouldAccumulateInRegister\<close> returns true, for every backend.
\<close>

theorem C5_dense_bitmask_register:
  "matrixType sg = DENSE \<or> matrixType sg = BITMASK \<Longrightarrow> spanType sg = POSTSYNAPTIC
   \<Longrightarrow> shouldAccumulateInRegister PostSpan sg backend"
  by (auto simp: matrixTypeHas_def)

theorem C5_dense_bitmask_register_witness:
  "(matrixType (exampleSynapseGroup\<lparr>matrixType := BITMASK\<rparr>) = DENSE
    \<or> matrixType (exampleSynapseGroup\<lparr>matrixType := BITMASK\<rparr>) = BITMASK)
   \<and> spanType (exampleSynapseGroup\<lparr>matrixType := BITMASK\<rparr>) = POSTSYNAPTIC
   \<and> shouldAccumulateInRegister PostSpan (exampleSynapseGroup\<lparr>matrixType := BITMASK\<rparr>)
        exampleBackend
   \<and> \<not> shouldAccumulateInRegister PostSpan exampleSynapseGroup exampleBackend"
  using C5_dense_bitmask_register
    [of "exampleSynapseGroup\<lparr>matrixType := BITMASK\<rparr>" exampleBackend]
  by (simp add: exampleSynapseGroup_def matrixTypeHas_def)

text \<open>
  C10: the postsynaptic span strategy's \<^verbatim>\<open>shouldAccumulateInSharedMemory\<close> returns true
  only for sparse connectivity; for every dense or bitmask connection it returns false,
  whatever the target size, the device and the block size, and
  \<^verbatim>\<open>shouldAccumulateInRegister\<close> returns true instead.
\<close>

theorem C10_post_span_shared_only_sparse:
  "(shouldAccumulateInSharedMemory PostSpan sg backend \<longrightarrow> matrixType sg = SPARSE)
   \<and> (matrixType sg = DENSE \<or> matrixType sg = BITMASK
      \<longrightarrow> \<not> shouldAccumulateInSharedMemory PostSpan sg backend
          \<and> shouldAccumulateInRegister PostSpan sg backend)"
  by (auto simp: matrixTypeHas_def)

theorem C10_post_span_shared_only_sparse_witness:
  "shouldAccumulateInSharedMemory PostSpan exampleSynapseGroup exampleBackend
   \<and> matrixType exampleSynapseGroup = SPARSE
   \<and> matrixType (exampleSynapseGroup\<lparr>matrixType := DENSE\<rparr>) = DENSE
   \<and> \<not> shouldAccumulateInSharedMemory PostSpan (exampleSynapseGroup\<lparr>matrixType := DENSE\<rparr>)
          exampleBackend
   \<and> shouldAccumulateInRegister PostSpan (exampleSynapseGroup\<lparr>matrixType := DENSE\<rparr>)
        exampleBackend"
  using C10_post_span_shared_only_sparse [of exampleSynapseGroup exampleBackend]
    C10_post_span_shared_only_sparse
      [of "exampleSynapseGroup\<lparr>matrixType := DENSE\<rparr>" exampleBackend]
  by (simp add: exampleSynapseGroup_def exampleBackend_def matrixTypeHas_def)

section \<open>Delay slots\<close>

lemma unat_inc32: "(n :: 32 word) < 0xFFFFFFFF \<Longrightarrow> unat (n + 1) = unat n + 1"
proof -
  assume "n < 0xFFFFFFFF"
  then have "unat n < 4294967295"
    by (simp add: word_less_nat_alt)
  then show ?thesis
    by (simp add: unat_word_ariths)
qed

lemma checkNumDelaySlots_max:
  "requiredDelay < 0xFFFFFFFF \<Longrightarrow>
   numDelaySlots (checkNumDelaySlots requiredDelay ng) = max (numDelaySlots ng) (requiredDelay + 1)"
proof -
  assume h: "requiredDelay < 0xFFFFFFFF"
  show ?thesis
  proof (cases "numDelaySlots ng \<le> requiredDelay")
    case True
    then have "numDelaySlots ng \<le> requiredDelay + 1"
      using h by (simp add: word_le_nat_alt unat_inc32)
    with True show ?thesis
      by (simp add: checkNumDelaySlots_def max_def)
  next
    case False
    then have "requiredDelay + 1 \<le> numDelaySlots ng"
      using h by (simp add: word_le_nat_alt unat_inc32)
    with False show ?thesis
      by (simp add: checkNumDelaySlots_def max_def)
  qed
qed

lemma checkNumDelaySlots_mono:
  "requiredDelay < 0xFFFFFFFF \<Longrightarrow>
   numDelaySlots ng \<le> numDelaySlots (checkNumDelaySlots requiredDelay ng)"
  by (simp add: checkNumDelaySlots_max)

lemma word32_le_max: "(w :: 32 word) \<le> 0xFFFFFFFF"
  using unsigned_less [of w, where ?'a = nat] by (simp add: word_le_nat_alt)

lemma word32_not_less_max: "\<not> (n :: 32 word) < 0xFFFFFFFF \<Longrightarrow> n = 0xFFFFFFFF"
  using word32_le_max [of n] by simp

lemma checkNumDelaySlots_idem:
  "checkNumDelaySlots n (checkNumDelaySlots n ng) = checkNumDelaySlots n ng"
proof (cases "n < 0xFFFFFFFF")
  case True
  then have "\<not> n + 1 \<le> n"
    by (simp add: word_le_nat_alt unat_inc32)
  then show ?thesis
    by (simp add: checkNumDelaySlots_def)
next
  case False
  then have "n = 0xFFFFFFFF"
    by (rule word32_not_less_max)
  then show ?thesis
    by (simp add: checkNumDelaySlots_def word32_le_max)
qed

lemma checkNumDelaySlots_2_5_1:
  assumes "numDelaySlots ng \<le> 6"
  shows "numDelaySlots (checkNumDelaySlots 2 (checkNumDelaySlots 5 (checkNumDelaySlots 1 ng))) = 6"
proof -
  have "numDelaySlots (checkNumDelaySlots 2 (checkNumDelaySlots 5 (checkNumDelaySlots 1 ng)))
        = max (max (max (numDelaySlots ng) 2) 6) 3"
    by (simp add: checkNumDelaySlots_max)
  also have "\<dots> = 6" using assms by (simp add: max_def)
  finally show ?thesis .
qed


lemma checkNumDelaySlots_any_order:
  assumes "numDelaySlots ng \<le> 6"
  shows "numDelaySlots (checkNumDelaySlots 1 (checkNumDelaySlots 5 (checkNumDelaySlots 2 ng))) = 6"
    and "numDelaySlots (checkNumDelaySlots 5 (checkNumDelaySlots 1 (checkNumDelaySlots 2 ng))) = 6"
    and "numDelaySlots (checkNumDelaySlots 1 (checkNumDelaySlots 2 (checkNumDelaySlots 5 ng))) = 6"
    and "numDelaySlots (checkNumDelaySlots 2 (checkNumDelaySlots 1 (checkNumDelaySlots 5 ng))) = 6"
    and "numDelaySlots (checkNumDelaySlots 5 (checkNumDelaySlots 2 (checkNumDelaySlots 1 ng))) = 6"
  using assms by (simp_all add: checkNumDelaySlots_max max_def)

text \<open>
  C6: \<^verbatim>\<open>checkNumDelaySlots\<close> never lowers the stored count and leaves it at
  \<open>max(current, n + 1)\<close>. The lemmas above prove this for every required delay below
  \<^verbatim>\<open>UINT_MAX\<close>. At \<^verbatim>\<open>requiredDelay = UINT_MAX\<close> the \<^verbatim>\<open>unsigned int\<close> sum
  \<^verbatim>\<open>requiredDelay + 1\<close> wraps to 0: a stored count of 1 drops to 0.
\<close>

theorem C6_checkNumDelaySlots_wraps:
  "numDelaySlots exampleNeuronGroup = 1
   \<and> numDelaySlots (checkNumDelaySlots 0xFFFFFFFF exampleNeuronGroup) = 0
   \<and> numDelaySlots (checkNumDelaySlots 0xFFFFFFFF exampleNeuronGroup)
       < numDelaySlots exampleNeuronGroup"
  by (simp add: checkNumDelaySlots_def exampleNeuronGroup_def)

section \<open>Variable queues\<close>

lemma contains_sublist: "contains s pat = sublist pat s"
  unfolding contains_def
  by (induction s) (auto simp: sublist_Cons_right)

lemma updateVarQueues_from_spec:
  "i + length vs \<le> length (varQueueRequired ng) \<Longrightarrow>
   \<exists>ng'. updateVarQueues_from code vs i ng = Some ng'
     \<and> neuronModel ng' = neuronModel ng
     \<and> numDelaySlots ng' = numDelaySlots ng
     \<and> inSyn ng' = inSyn ng
     \<and> length (varQueueRequired ng') = length (varQueueRequired ng)
     \<and> (\<forall>j < length (varQueueRequired ng).
          varQueueRequired ng' ! j
          = (varQueueRequired ng ! j
             \<or> (i \<le> j \<and> j < i + length vs \<and> contains code (fst (vs ! (j - i)) @ ''_pre''))))
     \<and> anyVarQueuesRequired ng'
       = (anyVarQueuesRequired ng \<or> (\<exists>v \<in> set vs. contains code (fst v @ ''_pre'')))"
proof (induction vs arbitrary: i ng)
  case Nil
  then show ?case by auto
next
  case (Cons v vs)
  let ?hit = "contains code (fst v @ ''_pre'')"
  let ?ng1 = "if ?hit then ng\<lparr>anyVarQueuesRequired := True,
                       varQueueRequired := (varQueueRequired ng)[i := True]\<rparr> else ng"
  have len1: "length (varQueueRequired ?ng1) = length (varQueueRequired ng)" by simp
  have step: "updateVarQueues_from code (v # vs) i ng = updateVarQueues_from code vs (Suc i) ?ng1"
    using Cons.prems by (simp add: contains_def)
  have "Suc i + length vs \<le> length (varQueueRequired ?ng1)"
    using Cons.prems by simp
  from Cons.IH [OF this] obtain ng' where
    r: "updateVarQueues_from code vs (Suc i) ?ng1 = Some ng'"
    and f: "neuronModel ng' = neuronModel ?ng1" "numDelaySlots ng' = numDelaySlots ?ng1"
       "inSyn ng' = inSyn ?ng1"
    and l: "length (varQueueRequired ng') = length (varQueueRequired ?ng1)"
    and q: "\<forall>j < length (varQueueRequired ?ng1).
          varQueueRequired ng' ! j
          = (varQueueRequired ?ng1 ! j
             \<or> (Suc i \<le> j \<and> j < Suc i + length vs \<and> contains code (fst (vs ! (j - Suc i)) @ ''_pre'')))"
    and a: "anyVarQueuesRequired ng'
       = (anyVarQueuesRequired ?ng1 \<or> (\<exists>v \<in> set vs. contains code (fst v @ ''_pre'')))"
    by blast
  have q': "varQueueRequired ng' ! j
          = (varQueueRequired ng ! j
             \<or> (i \<le> j \<and> j < i + length (v # vs) \<and> contains code (fst ((v # vs) ! (j - i)) @ ''_pre'')))"
    if j: "j < length (varQueueRequired ng)" for j
  proof (cases "j = i")
    case True
    with q j show ?thesis by (simp add: nth_list_update)
  next
    case False
    then have "i \<le> j \<Longrightarrow> (v # vs) ! (j - i) = vs ! (j - Suc i)"
      by (simp add: nth_Cons')
    with False q j show ?thesis by (auto simp: nth_list_update)
  qed
  show ?case
    using step r f l a q' by (auto split: if_splits)
qed


text \<open>
  C8, as stated: a variable is flagged when the code refers to it in either the "pre" or
  the "post" suffixed form. It fails for the "post" form: scanning a fragment that
  contains \<^verbatim>\<open>V_post\<close> (and no \<^verbatim>\<open>V_pre\<close>) leaves the flag of \<^verbatim>\<open>V\<close> unset.
\<close>

theorem C8_counterexample:
  "contains ''$(addToInSyn, $(V_post));'' (''V'' @ ''_post'')
   \<and> map_option varQueueRequired
         (updateVarQueues ''$(addToInSyn, $(V_post));'' exampleNeuronGroup)
       = Some [False, False]
   \<and> map_option anyVarQueuesRequired
         (updateVarQueues ''$(addToInSyn, $(V_post));'' exampleNeuronGroup)
       = Some False"
  by (simp add: contains_def updateVarQueues_def exampleNeuronGroup_def)

text \<open>
  C8, amended: \<^verbatim>\<open>updateVarQueues\<close> scans for the "_pre" suffixed form only. On a population
  whose flag vector has one entry per declared variable it succeeds, and afterwards the
  flag of a variable is set exactly when it was set before or the code fragment contains
  the variable's name followed by \<^verbatim>\<open>_pre\<close>; a variable whose \<^verbatim>\<open>_pre\<close> name does not occur
  keeps its flag, and "_post" references are not looked for. The population-wide flag is
  set exactly when it was set before or some variable's \<^verbatim>\<open>_pre\<close> name occurs.
\<close>

theorem C8_updateVarQueues_pre_only:
  assumes "length (varQueueRequired ng) = length (vars (neuronModel ng))"
  shows "\<exists>ng'. updateVarQueues code ng = Some ng'
     \<and> length (varQueueRequired ng') = length (vars (neuronModel ng))
     \<and> (\<forall>j < length (vars (neuronModel ng)).
          varQueueRequired ng' ! j
          = (varQueueRequired ng ! j
             \<or> contains code (fst (vars (neuronModel ng) ! j) @ ''_pre'')))
     \<and> anyVarQueuesRequired ng'
       = (anyVarQueuesRequired ng
          \<or> (\<exists>v \<in> set (vars (neuronModel ng)). contains code (fst v @ ''_pre'')))"
proof -
  have "0 + length (vars (neuronModel ng)) \<le> length (varQueueRequired ng)"
    using assms by simp
  from updateVarQueues_from_spec [OF this, of code] assms show ?thesis
    by (auto simp: updateVarQueues_def)
qed

theorem C8_updateVarQueues_pre_only_witness:
  "length (varQueueRequired exampleNeuronGroup) = length (vars (neuronModel exampleNeuronGroup))
   \<and> map_option varQueueRequired
         (updateVarQueues ''$(addToInSyn, $(g) * $(U_pre));'' exampleNeuronGroup)
       = Some [False, True]
   \<and> contains ''$(addToInSyn, $(g) * $(U_pre));'' (''U'' @ ''_pre'')
   \<and> \<not> contains ''$(addToInSyn, $(g) * $(U_pre));'' (''V'' @ ''_pre'')"
  using C8_updateVarQueues_pre_only
    [of exampleNeuronGroup "''$(addToInSyn, $(g) * $(U_pre));''"]
  by (simp add: contains_def updateVarQueues_def exampleNeuronGroup_def)

section \<open>Randomness requirement\<close>

lemma inSynRNGRequired_iff:
  "inSynRNGRequired isRNGRequired psms
   = (\<exists>psm \<in> set psms. isRNGRequired (applyInputCode psm) \<or> isRNGRequired (decayCode psm))"
  by (induction psms) auto

text \<open>
  C9: \<^verbatim>\<open>isSimRNGRequired\<close> returns true if and only if the population's sim code,
  threshold condition code or reset code requires an RNG, or the apply-input code or the
  decay code of the postsynaptic model of at least one incoming synapse group does; it
  returns false when none of these code strings does. The test on a code string,
  \<^verbatim>\<open>::isRNGRequired\<close>, is arbitrary.
\<close>

theorem C9_isSimRNGRequired_iff:
  "isSimRNGRequired isRNGRequired ng
   = (isRNGRequired (simCode (neuronModel ng))
      \<or> isRNGRequired (thresholdConditionCode (neuronModel ng))
      \<or> isRNGRequired (resetCode (neuronModel ng))
      \<or> (\<exists>psm \<in> set (inSyn ng).
            isRNGRequired (applyInputCode psm) \<or> isRNGRequired (decayCode psm)))"
  by (simp add: isSimRNGRequired_def inSynRNGRequired_iff)

theorem C9_isSimRNGRequired_iff_witness:
  "\<not> isSimRNGRequired (\<lambda>code. contains code ''$(gennrand_'') exampleNeuronGroup
   \<and> isSimRNGRequired (\<lambda>code. contains code ''$(gennrand_'')
        (exampleNeuronGroup\<lparr>inSyn :=
           [\<lparr>applyInputCode = ''$(Isyn) += $(inSyn);'',
             decayCode = ''$(inSyn) *= $(gennrand_uniform);''\<rparr>]\<rparr>)"
  using C9_isSimRNGRequired_iff [of "\<lambda>code. contains code ''$(gennrand_''" exampleNeuronGroup]
    C9_isSimRNGRequired_iff [of "\<lambda>code. contains code ''$(gennrand_''"
      "exampleNeuronGroup\<lparr>inSyn :=
           [\<lparr>applyInputCode = ''$(Isyn) += $(inSyn);'',
             decayCode = ''$(inSyn) *= $(gennrand_uniform);''\<rparr>]\<rparr>"]
  by (simp add: contains_def exampleNeuronGroup_def)

section \<open>Dendritic delay writes\<close>

lemma addVarSubstitution_child:
  "addVarSubstitution name v (childSubstitutions outer)
   = Some (Substitutions [(name, v)] [] (Some outer))"
  by (simp add: addVarSubstitution_def childSubstitutions_def)

lemma addVarSubstitution_no_funcs:
  "addVarSubstitution name v (Substitutions vs [] p) = Some (Substitutions ((name, v) # vs) [] p)"
  by (simp add: addVarSubstitution_def)

lemma genCode_synSubs_PreSpan_delay:
  assumes "dendriticDelayRequired sg" and "getVarSubstitution popSubs ''id'' = Some popId"
  shows "genCode_synSubs PreSpan isRNGRequired precision sg popSubs backend trueSpike
         = Some (Substitutions
                   [(''id_syn'', ''synAddress''), (''id_post'', ''ipost''), (''id_pre'', ''preInd'')]
                   [(''addToInSynDelay'', 2, addToInSynDelayTemplate precision sg backend ''ipost'')]
                   (Some popSubs))"
  using assms
  by (simp add: addVarSubstitution_child addVarSubstitution_no_funcs addFuncSubstitution_def)

lemma genCode_synSubs_PostSpan_delay:
  assumes "dendriticDelayRequired sg" and "getVarSubstitution popSubs ''id'' = Some popId"
  shows "genCode_synSubs PostSpan isRNGRequired precision sg popSubs backend trueSpike
         = Some (Substitutions
                   [(''id_syn'', ''synAddress''), (''id_post'', denDelayIndex PostSpan sg popId),
                    (''id_pre'', ''shSpk'' @ (if trueSpike then '''' else ''Evnt'') @ ''[j]'')]
                   [(''addToInSynDelay'', 2,
                     addToInSynDelayTemplate precision sg backend (denDelayIndex PostSpan sg popId))]
                   (Some popSubs))"
  using assms
  by (simp add: addVarSubstitution_child addVarSubstitution_no_funcs addFuncSubstitution_def)

lemma genCode_synSubs_PreSpanProcedural_delay:
  assumes "dendriticDelayRequired sg" and "getVarSubstitution popSubs ''id'' = Some popId"
  shows "genCode_synSubs PreSpanProcedural isRNGRequired precision sg popSubs backend trueSpike
         = Some (Substitutions
                   [(''id_syn'', ''synAddress''), (''id_post'', ''$(0)'')]
                   [(''addToInSynDelay'', 2,
                     addToInSynDelayTemplate precision sg backend ''$(id_post)'')]
                   (Some (Substitutions
                            ((if isRNGRequired (rowBuildCode sg) then [(''rng'', ''&connectRNG'')]
                              else []) @ [(''id_pre'', ''preInd'')])
                            [] (Some popSubs))))"
  using assms
  by (simp add: addVarSubstitution_child addVarSubstitution_no_funcs addFuncSubstitution_def)

text \<open>
  C3: whenever dendritic delay is required, the stack every strategy's \<^verbatim>\<open>genCode\<close> hands
  to the weight update handler binds \<^verbatim>\<open>addToInSynDelay\<close> as a function of two arguments
  whose template is the backend's atomic add applied to the address of an element of the
  dendritic delay buffer \<^verbatim>\<open>dd_denDelay\<close>, with the first argument as the value added. This
  holds for every connection, backend and precision, whatever
  \<^verbatim>\<open>shouldAccumulateInRegister\<close> and \<^verbatim>\<open>shouldAccumulateInSharedMemory\<close> answer, and the
  strategy's own context then binds no \<^verbatim>\<open>addToInSyn\<close>.
\<close>

theorem C3_dendritic_delay_atomic:
  assumes "dendriticDelayRequired sg" and "getVarSubstitution popSubs ''id'' = Some popId"
  shows "\<exists>synSubs.
           genCode_synSubs s isRNGRequired precision sg popSubs backend trueSpike = Some synSubs
           \<and> getFuncSubstitution synSubs ''addToInSynDelay''
             = Some (2, floatAtomicAdd backend precision @ ''(&dd_denDelay''
                          @ psModelTargetName sg @ ''['' @ dendriticDelayOffset sg ''dd_'' ''$(1)''
                          @ denDelayIndex s sg popId @ ''], $(0))'')
           \<and> map_of (funcSubstitutions synSubs) ''addToInSyn'' = None"
proof (cases s)
  case PreSpan
  then show ?thesis
    using genCode_synSubs_PreSpan_delay [OF assms]
    by (simp add: addToInSynDelayTemplate_def)
next
  case PostSpan
  then show ?thesis
    using genCode_synSubs_PostSpan_delay [OF assms]
    by (simp add: addToInSynDelayTemplate_def)
next
  case PreSpanProcedural
  then show ?thesis
    using genCode_synSubs_PreSpanProcedural_delay [OF assms]
    by (simp add: addToInSynDelayTemplate_def)
qed

theorem C3_dendritic_delay_atomic_witness:
  "dendriticDelayRequired (exampleSynapseGroup\<lparr>dendriticDelayRequired := True\<rparr>)
   \<and> getVarSubstitution (Substitutions [(''id'', ''lid'')] [] None) ''id'' = Some ''lid''
   \<and> map_option (\<lambda>synSubs. getFuncSubstitution synSubs ''addToInSynDelay'')
        (genCode_synSubs PostSpan (\<lambda>code. False) ''float''
           (exampleSynapseGroup\<lparr>dendriticDelayRequired := True\<rparr>)
           (Substitutions [(''id'', ''lid'')] [] None) exampleBackend True)
      = Some (Some (2, ''atomicAdd(&dd_denDelaySyn[(($(1)) * 4) + ipost], $(0))''))"
  using C3_dendritic_delay_atomic
    [of "exampleSynapseGroup\<lparr>dendriticDelayRequired := True\<rparr>"
        "Substitutions [(''id'', ''lid'')] [] None" "''lid''" PostSpan "\<lambda>code. False"
        "''float''" exampleBackend True]
  by (simp add: exampleSynapseGroup_def exampleBackend_def childSubstitutions_def
      addVarSubstitution_def addFuncSubstitution_def addToInSynDelayTemplate_def matrixTypeHas_def)
section \<open>Splitting a row between the threads of a spike\<close>

lemma ceilDivide_covers: "0 < d \<Longrightarrow> n \<le> ceilDivide n d * d"
proof -
  assume d: "0 < d"
  have "(n + d - 1) div d * d + (n + d - 1) mod d = n + d - 1"
    by simp
  moreover have "(n + d - 1) mod d < d"
    using d by simp
  ultimately show ?thesis
    unfolding ceilDivide_def by arith
qed

lemma last_sub_row_ends_at_target_count:
  fixes N T :: nat
  defines "k \<equiv> ceilDivide N T"
  assumes T: "1 < T" and inside: "(T - 1) * k < N"
  shows "0 < k"
    and "N mod k = 0 \<Longrightarrow> (T - 1) * k + k = N"
    and "N mod k \<noteq> 0 \<Longrightarrow> (T - 1) * k + N mod k = N"
proof -
  have cover: "N \<le> T * k"
    using ceilDivide_covers [of T N] T by (simp add: k_def mult.commute)
  show k: "0 < k"
    using inside cover by (cases k) auto
  have split: "N div k * k + N mod k = N"
    by simp
  have r: "N mod k < k"
    using k by simp
  show "(T - 1) * k + k = N" if "N mod k = 0"
  proof -
    from that split have eq: "N div k * k = N" by simp
    with inside have "(T - 1) * k < N div k * k" by simp
    then have "T - 1 < N div k" by simp
    moreover from eq cover have "N div k * k \<le> T * k" by simp
    then have "N div k \<le> T" using k by simp
    ultimately have "N div k = T" using T by arith
    with eq have "T * k = N" by simp
    moreover have "(T - 1) * k + k = T * k"
      using T by (simp add: algebra_simps)
    ultimately show ?thesis by simp
  qed
  show "(T - 1) * k + N mod k = N" if "N mod k \<noteq> 0"
  proof -
    have "(T - 1) * k < N div k * k + k"
      using inside split r by arith
    then have "(T - 1) * k < (N div k + 1) * k" by (simp add: algebra_simps)
    then have "T - 1 < N div k + 1" by (simp only: mult_less_cancel2)
    then have lo: "T - 1 \<le> N div k" by arith
    have "N div k * k < T * k"
      using cover split that by arith
    then have "N div k < T" by simp
    with lo have "N div k = T - 1" by arith
    with split show ?thesis by simp
  qed
qed

text \<open>
  When the last thread's sub-row starts inside the target range, the sub-rows tile the
  range: thread \<open>t\<close> starts at \<open>t * ceil(N / T)\<close>, every thread but the last takes
  \<open>ceil(N / T)\<close> targets, and the last sub-row ends exactly at \<open>N\<close>.
\<close>

lemma threadSubRows_tile:
  assumes T: "1 < numThreadsPerSpike sg"
    and inside: "(numThreadsPerSpike sg - 1) * ceilDivide (trgNumNeurons sg) (numThreadsPerSpike sg)
                 < trgNumNeurons sg"
    and word: "trgNumNeurons sg < 2 ^ 32"
  shows "\<exists>rows. threadSubRows sg = Some rows
     \<and> length rows = numThreadsPerSpike sg
     \<and> (\<forall>t < numThreadsPerSpike sg.
          fst (rows ! t) = t * ceilDivide (trgNumNeurons sg) (numThreadsPerSpike sg))
     \<and> (\<forall>t < numThreadsPerSpike sg - 1.
          snd (rows ! t) = ceilDivide (trgNumNeurons sg) (numThreadsPerSpike sg))
     \<and> 0 < snd (rows ! (numThreadsPerSpike sg - 1))
     \<and> fst (rows ! (numThreadsPerSpike sg - 1)) + snd (rows ! (numThreadsPerSpike sg - 1))
       = trgNumNeurons sg"
proof -
  let ?T = "numThreadsPerSpike sg" and ?N = "trgNumNeurons sg"
  let ?k = "ceilDivide ?N ?T"
  note facts = last_sub_row_ends_at_target_count [OF T inside]
  have start: "(t * ?k) mod 2 ^ 32 = t * ?k" if "t < ?T" for t
  proof -
    from that have "t \<le> ?T - 1" by arith
    then have "t * ?k \<le> (?T - 1) * ?k" by (rule mult_le_mono1)
    with inside word have "t * ?k < 2 ^ 32" by arith
    then show ?thesis by simp
  qed
  show ?thesis
  proof (cases "?N mod ?k = 0")
    case True
    then have "threadSubRows sg
        = Some (map (\<lambda>thread. ((thread * ?k) mod 2 ^ 32, ?k)) [0 ..< ?T])"
      using T facts(1) by (simp add: threadSubRows_def genCode_postRange_def Let_def)
    then show ?thesis
      using T facts(1) facts(2) [OF True] start by simp
  next
    case False
    then have "threadSubRows sg
        = Some (map (\<lambda>thread. ((thread * ?k) mod 2 ^ 32,
                               if thread = ?T - 1 then ?N mod ?k else ?k)) [0 ..< ?T])"
      using T facts(1) by (simp add: threadSubRows_def genCode_postRange_def Let_def)
    then show ?thesis
      using T False facts(3) [OF False] start by simp
  qed
qed

lemma threadSubRows_10_3:
  "threadSubRows (exampleSynapseGroup\<lparr>trgNumNeurons := 10, numThreadsPerSpike := 3\<rparr>)
   = Some [(0, 4), (4, 4), (8, 2)]"
  by (simp add: threadSubRows_def genCode_postRange_def ceilDivide_def exampleSynapseGroup_def
      upt_rec)

text \<open>
  C7: the sub-rows partition the target range, the last thread's sub-row clamped to the
  remainder. For 10 targets and 3 threads the sub-rows are 4, 4 and 2 targets long (lemma
  \<open>threadSubRows_10_3\<close>). For 9 targets and 4 threads per spike the block size is
  \<open>ceil(9 / 4) = 3\<close>, which divides 9, so no clamp is emitted: each of the four threads
  takes 3 targets, and the last thread's sub-row covers the targets 9, 10 and 11 of a
  population of 9.
\<close>

theorem C7_sub_rows_leave_target_range:
  "genCode_postRange (exampleSynapseGroup\<lparr>trgNumNeurons := 9, numThreadsPerSpike := 4\<rparr>)
   = Some (IdPostStart 3, NumPostLiteral 3)
   \<and> threadSubRows (exampleSynapseGroup\<lparr>trgNumNeurons := 9, numThreadsPerSpike := 4\<rparr>)
     = Some [(0, 3), (3, 3), (6, 3), (9, 3)]
   \<and> threadSubRows (exampleSynapseGroup\<lparr>trgNumNeurons := 5, numThreadsPerSpike := 4\<rparr>)
     = Some [(0, 2), (2, 2), (4, 2), (6, 1)]"
  by (simp add: threadSubRows_def genCode_postRange_def ceilDivide_def exampleSynapseGroup_def
      upt_rec)

end
